theory Spec2Isabelle
  imports Complex_Main "HOL-Library.Word"
begin

unbundle bit_operations_syntax

section \<open>Bela examples: Trill square oscillator pad and the sample loader\<close>

text \<open>
  The two programs are \<^verbatim>\<open>examples/Trill/trill-square-oscillator-pad-A/render.cpp\<close> and
  \<^verbatim>\<open>examples/terminal-only/samples/main.cpp\<close>.

  Numbers. C \<^verbatim>\<open>float\<close> values are modelled by \<^typ>\<open>real\<close>: arithmetic is exact, there is no
  rounding, and the two operations of the source that leave the finite numbers (the
  division by a zero touch count and the conversion of its result to \<^verbatim>\<open>int\<close>) are written
  out as branches. C \<^verbatim>\<open>int\<close> values of the sensor code are modelled by \<^typ>\<open>int\<close>. The
  source adds in 32-bit \<^verbatim>\<open>int\<close> and divides in binary32, and agrees with unbounded
  integers and exact quotients on the readings of a Trill sensor, which are 16-bit values:
  there the sums neither wrap nor lose precision when they are converted to \<^verbatim>\<open>float\<close>.
  That range is the predicate \<open>in_sensor_range\<close> below, and a statement about the value of
  an aggregated location carries it as a hypothesis.
\<close>

subsection \<open>Range mapper (Bela \<^verbatim>\<open>Utilities.h\<close>)\<close>

text \<open>
  Modelled from the spec: \<^verbatim>\<open>map\<close> and \<^verbatim>\<open>constrain\<close> are declared in Bela's
  \<^verbatim>\<open>Utilities.h\<close>, which the two programs only include. The spec (4.1) gives
  \<^verbatim>\<open>out = outMin + (value - inMin) * (outMax - outMin) / (inMax - inMin)\<close>, asks for a
  defined fallback (\<^verbatim>\<open>outMin\<close>) when \<^verbatim>\<open>inMax == inMin\<close>, and describes
  \<^verbatim>\<open>clamp(value, lo, hi)\<close> as the restriction to \<^verbatim>\<open>[lo, hi]\<close>.
\<close>

definition map_range :: "real \<Rightarrow> real \<Rightarrow> real \<Rightarrow> real \<Rightarrow> real \<Rightarrow> real" where
  "map_range x in_min in_max out_min out_max =
     (if in_max = in_min then out_min
      else out_min + (x - in_min) * (out_max - out_min) / (in_max - in_min))"

definition constrain :: "real \<Rightarrow> real \<Rightarrow> real \<Rightarrow> real" where
  "constrain x min_val max_val =
     (if x < min_val then min_val else if x > max_val then max_val else x)"

subsection \<open>Sensor poll loop (\<^verbatim>\<open>loop\<close> in render.cpp)\<close>

text \<open>
  One touch slot of the vertical axis: \<^verbatim>\<open>touchLocation(i)\<close> and \<^verbatim>\<open>touchSize(i)\<close>.
\<close>

record touch =
  touchLocation :: int
  touchSize :: int

text \<open>
  The values a slot of the sensor can hold: location and size are unsigned 16-bit numbers.
\<close>

definition in_sensor_range :: "touch \<Rightarrow> bool" where
  "in_sensor_range t \<longleftrightarrow>
     0 \<le> touchLocation t \<and> touchLocation t < 65536 \<and>
     0 \<le> touchSize t \<and> touchSize t < 65536"

text \<open>
  What \<^verbatim>\<open>touchSensor.readLocations()\<close> makes available in one iteration: the slots
  \<^verbatim>\<open>0 .. numberOfTouches() - 1\<close> and the horizontal locations
  \<^verbatim>\<open>0 .. numberOfHorizontalTouches() - 1\<close>.
\<close>

record reading =
  touches :: "touch list"
  horizontalTouches :: "int list"

text \<open>The globals \<^verbatim>\<open>gTouchPosition[0]\<close>, \<^verbatim>\<open>gTouchPosition[1]\<close> and \<^verbatim>\<open>gTouchSize\<close>.\<close>

record control =
  gTouchPosition0 :: real
  gTouchPosition1 :: real
  gTouchSize :: real

definition gTouchSizeRange :: "int \<times> int" where
  "gTouchSizeRange = (500, 6000)"

text \<open>
  The first \<^verbatim>\<open>for\<close> loop: the accumulator is \<^verbatim>\<open>(avgLocation, avgSize, numTouches)\<close>.
  The source adds in 32-bit \<^verbatim>\<open>int\<close>; the sums here are those of the source as long as they
  stay below \<open>2 ^ 31\<close>, which readings in the sensor range guarantee.
\<close>

fun sum_touches :: "touch list \<Rightarrow> int \<times> int \<times> int \<Rightarrow> int \<times> int \<times> int" where
  "sum_touches [] acc = acc"
| "sum_touches (t # ts) (avgLocation, avgSize, numTouches) =
     (if touchLocation t \<noteq> 0
      then sum_touches ts (avgLocation + touchLocation t, avgSize + touchSize t, numTouches + 1)
      else sum_touches ts (avgLocation, avgSize, numTouches))"

text \<open>
  The second \<^verbatim>\<open>for\<close> loop: the accumulator is
  \<^verbatim>\<open>(avgHorizontalLocation, numHorizontalTouches)\<close>.
\<close>

fun sum_horizontal :: "int list \<Rightarrow> int \<times> int \<Rightarrow> int \<times> int" where
  "sum_horizontal [] acc = acc"
| "sum_horizontal (h # hs) (avgHorizontalLocation, numHorizontalTouches) =
     (if h \<noteq> 0
      then sum_horizontal hs (avgHorizontalLocation + h, numHorizontalTouches + 1)
      else sum_horizontal hs (avgHorizontalLocation, numHorizontalTouches))"

text \<open>
  \<^verbatim>\<open>avg = floor(1.0f * avg / num)\<close>, assigned to an \<^verbatim>\<open>int\<close>. With \<^verbatim>\<open>num == 0\<close> the sum is
  0 as well, the quotient is NaN, and converting NaN to \<^verbatim>\<open>int\<close> is undefined in C++:
  the value that the target happens to deliver is the parameter \<open>nan_int\<close>. The source
  divides in binary32; the quotient here is exact, which is what the source computes as
  long as the sum is below \<open>2 ^ 24\<close> and so has a binary32 value of its own.
\<close>

definition floor_avg :: "int \<Rightarrow> int \<Rightarrow> int \<Rightarrow> int" where
  "floor_avg nan_int avg num =
     (if num = 0 then nan_int else \<lfloor>1 * real_of_int avg / real_of_int num\<rfloor>)"

text \<open>Lines 79 to 91: the raw aggregated \<^verbatim>\<open>(avgLocation, avgSize)\<close>.\<close>

definition aggregate_vertical :: "int \<Rightarrow> touch list \<Rightarrow> int \<times> int" where
  "aggregate_vertical nan_int ts =
     (case sum_touches ts (0, 0, 0) of
        (avgLocation, avgSize, numTouches) \<Rightarrow>
          (floor_avg nan_int avgLocation numTouches, floor_avg nan_int avgSize numTouches))"

text \<open>Lines 97 to 106: the raw aggregated \<^verbatim>\<open>avgHorizontalLocation\<close>.\<close>

definition aggregate_horizontal :: "int \<Rightarrow> int list \<Rightarrow> int" where
  "aggregate_horizontal nan_int hs =
     (case sum_horizontal hs (0, 0) of
        (avgHorizontalLocation, numHorizontalTouches) \<Rightarrow>
          floor_avg nan_int avgHorizontalLocation numHorizontalTouches)"

text \<open>One iteration of the \<^verbatim>\<open>while\<close> body, from the reading to the three globals.\<close>

definition poll_cycle :: "int \<Rightarrow> reading \<Rightarrow> control \<Rightarrow> control" where
  "poll_cycle nan_int r g =
     (case aggregate_vertical nan_int (touches r) of
        (avgLocation, avgSize) \<Rightarrow>
          let g1 = g\<lparr>gTouchSize := map_range (real_of_int avgSize)
                       (real_of_int (fst gTouchSizeRange)) (real_of_int (snd gTouchSizeRange)) 0 1\<rparr>;
              g2 = g1\<lparr>gTouchSize := constrain (gTouchSize g1) 0 1\<rparr>;
              g3 = g2\<lparr>gTouchPosition1 := map_range (real_of_int avgLocation) 0 1792 0 1\<rparr>;
              g4 = g3\<lparr>gTouchPosition1 := constrain (gTouchPosition1 g3) 0 1\<rparr>;
              avgHorizontalLocation = aggregate_horizontal nan_int (horizontalTouches r);
              g5 = g4\<lparr>gTouchPosition0 := map_range (real_of_int avgHorizontalLocation) 0 1792 0 1\<rparr>
          in g5\<lparr>gTouchPosition0 := constrain (gTouchPosition0 g5) 0 1\<rparr>)"

text \<open>
  \<^verbatim>\<open>while(!gShouldStop)\<close>: the list holds the readings of the iterations that found the
  flag clear, in order; the loop leaves when the list is used up.
\<close>

fun loop :: "int \<Rightarrow> reading list \<Rightarrow> control \<Rightarrow> control" where
  "loop nan_int [] g = g"
| "loop nan_int (r # rs) g = loop nan_int rs (poll_cycle nan_int r g)"

text \<open>The initial values of the globals (lines 35 and 37).\<close>

definition control_init :: control where
  "control_init = \<lparr>gTouchPosition0 = 0, gTouchPosition1 = 0, gTouchSize = 0\<rparr>"

definition in_unit :: "control \<Rightarrow> bool" where
  "in_unit g \<longleftrightarrow>
     0 \<le> gTouchPosition0 g \<and> gTouchPosition0 g \<le> 1 \<and>
     0 \<le> gTouchPosition1 g \<and> gTouchPosition1 g \<le> 1 \<and>
     0 \<le> gTouchSize g \<and> gTouchSize g \<le> 1"

subsection \<open>Parameter smoother (Bela \<^verbatim>\<open>libraries/OnePole\<close>)\<close>

text \<open>
  Modelled from the spec: the class \<^verbatim>\<open>OnePole\<close> lives in \<^verbatim>\<open>libraries/OnePole\<close>, of which
  render.cpp only has the calls. The spec (4.3): \<^verbatim>\<open>setup(cutoffHz, sampleRateHz)\<close> computes
  \<^verbatim>\<open>a = 1 - exp(-2*pi*cutoffHz/sampleRateHz)\<close> and initialises the state \<^verbatim>\<open>y\<close> to 0;
  \<^verbatim>\<open>process(x)\<close> computes \<^verbatim>\<open>y' = y + a*(x - y)\<close>, stores \<^verbatim>\<open>y'\<close> and returns it.
\<close>

record OnePole =
  coeff_a :: real
  state_y :: real

definition OnePole_setup :: "real \<Rightarrow> real \<Rightarrow> OnePole" where
  "OnePole_setup cutoffHz sampleRateHz =
     \<lparr>coeff_a = 1 - exp (- 2 * pi * cutoffHz / sampleRateHz), state_y = 0\<rparr>"

definition OnePole_process :: "real \<Rightarrow> OnePole \<Rightarrow> real \<times> OnePole" where
  "OnePole_process x f =
     (let y' = state_y f + coeff_a f * (x - state_y f) in (y', f\<lparr>state_y := y'\<rparr>))"

text \<open>The filter after \<open>n\<close> calls of \<^verbatim>\<open>process\<close> with the same input \<open>x\<close>.\<close>

fun OnePole_hold :: "real \<Rightarrow> nat \<Rightarrow> OnePole \<Rightarrow> OnePole" where
  "OnePole_hold x 0 f = f"
| "OnePole_hold x (Suc n) f = OnePole_hold x n (snd (OnePole_process x f))"

text \<open>What call number \<open>n\<close> (counted from 0) of that run returns.\<close>

definition held_output :: "real \<Rightarrow> OnePole \<Rightarrow> nat \<Rightarrow> real" where
  "held_output x f n = fst (OnePole_process x (OnePole_hold x n f))"

subsection \<open>Control-to-audio pipeline (\<^verbatim>\<open>render\<close> in render.cpp)\<close>

text \<open>
  The globals that \<^verbatim>\<open>render\<close> reads and writes. The oscillator is an object of Bela's
  \<^verbatim>\<open>libraries/Oscillator\<close>, known here only through \<^verbatim>\<open>setFrequency\<close> and \<^verbatim>\<open>process\<close>: its
  state is a type parameter and the two methods are parameters of the model. The three
  control values are read as the poll loop last left them; the interleaving of the two
  threads is not modelled.
\<close>

record 'o globals =
  gTouch :: control
  osc :: 'o
  freqFilt :: OnePole
  panFilt :: OnePole
  ampFilt :: OnePole
  gAmpL :: real
  gAmpR :: real

definition gFreqRange :: "real \<times> real" where
  "gFreqRange = (200, 1500)"

text \<open>
  Modelled from the spec: \<^verbatim>\<open>audioWrite\<close> is declared in \<^verbatim>\<open>Bela.h\<close>; the spec (6) has it as
  \<^verbatim>\<open>write(context, frameIndex, channel, sample)\<close>. The output buffer of the context is a
  function of frame and channel, and a write replaces one entry.
\<close>

type_synonym audioOut = "nat \<Rightarrow> nat \<Rightarrow> real"

definition audioWrite :: "audioOut \<Rightarrow> nat \<Rightarrow> nat \<Rightarrow> real \<Rightarrow> audioOut" where
  "audioWrite buf frame channel v = buf(frame := (buf frame)(channel := v))"

text \<open>The body of the inner \<^verbatim>\<open>for\<close> loop over the channels (lines 170 to 174).\<close>

definition write_channel :: "real \<Rightarrow> real \<Rightarrow> real \<Rightarrow> nat \<Rightarrow> audioOut \<Rightarrow> nat \<Rightarrow> audioOut" where
  "write_channel ampL ampR out n buf channel =
     (if channel = 0 then audioWrite buf n channel (ampL * out)
      else if channel = 1 then audioWrite buf n channel (ampR * out)
      else buf)"

text \<open>The body of the outer \<^verbatim>\<open>for\<close> loop: one audio frame \<open>n\<close> (lines 149 to 175).\<close>

definition render_frame ::
  "(real \<Rightarrow> 'o \<Rightarrow> 'o) \<Rightarrow> ('o \<Rightarrow> real \<times> 'o) \<Rightarrow> nat \<Rightarrow> 'o globals \<times> audioOut \<Rightarrow> nat
     \<Rightarrow> 'o globals \<times> audioOut" where
  "render_frame setFrequency process audioOutChannels st n =
     (case st of (g, buf) \<Rightarrow>
      case OnePole_process
             (map_range (gTouchPosition1 (gTouch g)) 0 1 (fst gFreqRange) (snd gFreqRange))
             (freqFilt g) of
        (frequency, freqFilt') \<Rightarrow>
      case OnePole_process (gTouchPosition0 (gTouch g)) (panFilt g) of
        (panning, panFilt') \<Rightarrow>
      case OnePole_process (gTouchSize (gTouch g)) (ampFilt g) of
        (amplitude, ampFilt') \<Rightarrow>
      case process (setFrequency frequency (osc g)) of
        (raw, osc') \<Rightarrow>
      let g' = g\<lparr>osc := osc', freqFilt := freqFilt', panFilt := panFilt', ampFilt := ampFilt',
                 gAmpL := 1 - panning, gAmpR := panning\<rparr>;
          out = amplitude * raw
      in (g', foldl (write_channel (gAmpL g') (gAmpR g') out n) buf [0..<audioOutChannels]))"

text \<open>\<^verbatim>\<open>render\<close>: the frames \<^verbatim>\<open>0 .. audioFrames - 1\<close> of one block.\<close>

definition render ::
  "(real \<Rightarrow> 'o \<Rightarrow> 'o) \<Rightarrow> ('o \<Rightarrow> real \<times> 'o) \<Rightarrow> nat \<Rightarrow> nat \<Rightarrow> 'o globals \<times> audioOut
     \<Rightarrow> 'o globals \<times> audioOut" where
  "render setFrequency process audioFrames audioOutChannels st =
     foldl (render_frame setFrequency process audioOutChannels) st [0..<audioFrames]"

subsection \<open>Sample loader (\<^verbatim>\<open>initFile\<close> in main.cpp)\<close>

text \<open>
  \<^verbatim>\<open>struct SampleData { float *samples; int sampleLen; }\<close>. A pointer to a buffer is an
  address, 0 being the null pointer; \<^verbatim>\<open>main\<close> starts from \<^verbatim>\<open>samples = 0\<close> and
  \<^verbatim>\<open>sampleLen = -1\<close>.
\<close>

record SampleData =
  samples :: nat
  sampleLen :: int

definition sampleData_init :: SampleData where
  "sampleData_init = \<lparr>samples = 0, sampleLen = - 1\<rparr>"

text \<open>
  What libsndfile reports about an opened file: the fields of \<^verbatim>\<open>SF_INFO\<close> that the loader
  reads, the items that \<^verbatim>\<open>sf_read_float\<close> delivers, and the answer to
  \<^verbatim>\<open>SFC_CALC_SIGNAL_MAX\<close>.
\<close>

record sndfile =
  frames :: int
  channels :: int
  format :: "32 word"
  items :: "real list"
  signal_max :: real

text \<open>The constants of \<^verbatim>\<open>sndfile.h\<close> that the loader names.\<close>

definition SF_FORMAT_SUBMASK :: "32 word" where
  "SF_FORMAT_SUBMASK = 0x0000FFFF"

definition SF_FORMAT_FLOAT :: "32 word" where
  "SF_FORMAT_FLOAT = 0x0006"

definition SF_FORMAT_DOUBLE :: "32 word" where
  "SF_FORMAT_DOUBLE = 0x0007"

text \<open>
  The heap of sample buffers: an address holds the cells of the array allocated there, a
  cell being \<open>None\<close> until it is first written.
\<close>

type_synonym heap = "nat \<rightharpoonup> real option list"

text \<open>
  The ways the call can end without returning: a write through a null \<^verbatim>\<open>smp\<close>, and the
  exception that \<^verbatim>\<open>new float[n]\<close> throws when it cannot allocate (\<^verbatim>\<open>new\<close> does not return a
  null pointer).
\<close>

datatype fault = NullPointer | BadAlloc

text \<open>The lines written to \<^verbatim>\<open>cout\<close>.\<close>

datatype message =
    CouldntOpenFile string
  | NotMonoFile string
  | CouldNotAllocateBuffer
  | FileSamplesScale real

text \<open>The conversion of the 64-bit product to \<^verbatim>\<open>int\<close>.\<close>

definition int32_of :: "int \<Rightarrow> int" where
  "int32_of i = sint (word_of_int i :: 32 word)"

text \<open>
  Lines 62 to 82, on the cells of the fresh buffer: \<^verbatim>\<open>sf_read_float\<close> fills the first
  \<^verbatim>\<open>readcount\<close> cells, the loop pads the rest with zeros, and float and double files are
  rescaled.
\<close>

definition read_samples :: "sndfile \<Rightarrow> int \<Rightarrow> real option list \<Rightarrow> real option list \<times> message list" where
  "read_samples sndfile len buf =
     (let subformat = format sndfile AND SF_FORMAT_SUBMASK;
          readcount = min (int (length (items sndfile))) len;
          buf1 = map Some (take (nat readcount) (items sndfile)) @ drop (nat readcount) buf;
          buf2 = fold (\<lambda>k b. b[k := Some 0]) [nat readcount..<nat len] buf1
      in if subformat = SF_FORMAT_FLOAT \<or> subformat = SF_FORMAT_DOUBLE
         then let scale = signal_max sndfile;
                  scale = (if scale < 1 / 10 ^ 10 then 1 else 32700 / scale)
              in (map (map_option (\<lambda>s. s * scale)) buf2, [FileSamplesScale scale])
         else (buf2, []))"

text \<open>
  \<^verbatim>\<open>initFile(file, smp)\<close>. \<open>sf_open\<close> is the file system as libsndfile sees it, \<open>new_float\<close>
  the allocator (the address of a fresh array of the given length, or \<open>None\<close> when the
  allocation fails). The pointer \<^verbatim>\<open>smp\<close> is \<open>None\<close> when null and otherwise holds the
  structure it points to. The result is the return value, the structure behind \<^verbatim>\<open>smp\<close>,
  the heap and the lines printed.
\<close>

definition initFile ::
  "(string \<Rightarrow> sndfile option) \<Rightarrow> (nat \<Rightarrow> nat option) \<Rightarrow> string \<Rightarrow> SampleData option \<Rightarrow> heap
     \<Rightarrow> fault + (int \<times> SampleData option \<times> heap \<times> message list)" where
  "initFile sf_open new_float file smp h =
     (case sf_open file of
        None \<Rightarrow> Inr (1, smp, h, [CouldntOpenFile file])
      | Some sndfile \<Rightarrow>
          let numChan = channels sndfile in
          if numChan \<noteq> 1 then Inr (1, smp, h, [NotMonoFile file])
          else
            (case smp of
               None \<Rightarrow> Inl NullPointer
             | Some d \<Rightarrow>
                 let d1 = d\<lparr>sampleLen := int32_of (frames sndfile * numChan)\<rparr> in
                 if sampleLen d1 < 0 then Inl BadAlloc
                 else
                   (case new_float (nat (sampleLen d1)) of
                      None \<Rightarrow> Inl BadAlloc
                    | Some p \<Rightarrow>
                        let d2 = d1\<lparr>samples := p\<rparr>;
                            buf = replicate (nat (sampleLen d2)) None
                        in if smp = None
                           then Inr (1, Some d2, h(p \<mapsto> buf), [CouldNotAllocateBuffer])
                           else
                             (case read_samples sndfile (sampleLen d2) buf of
                                (buf', msgs) \<Rightarrow> Inr (0, Some d2, h(p \<mapsto> buf'), msgs)))))"

text \<open>The lines that a call has printed when it ends; a fault is reached before any line.\<close>

definition printed ::
  "fault + (int \<times> SampleData option \<times> heap \<times> message list) \<Rightarrow> message list" where
  "printed r = (case r of Inl e \<Rightarrow> [] | Inr (ret, smp, h, msgs) \<Rightarrow> msgs)"

subsection \<open>Concrete inputs\<close>

text \<open>
  The pipeline globals with the horizontal position and the pan filter both at \<open>p\<close>, so
  that the smoothed pan of the next frame is \<open>p\<close>.
\<close>

definition at_pan :: "real \<Rightarrow> 'o globals \<Rightarrow> 'o globals" where
  "at_pan p g =
     g\<lparr>gTouch := (gTouch g)\<lparr>gTouchPosition0 := p\<rparr>, panFilt := (panFilt g)\<lparr>state_y := p\<rparr>\<rparr>"

text \<open>A reading without any touch, and published values that differ from it.\<close>

definition no_touch :: reading where
  "no_touch = \<lparr>touches = [], horizontalTouches = []\<rparr>"

definition published_before :: control where
  "published_before = \<lparr>gTouchPosition0 = 1 / 2, gTouchPosition1 = 1 / 2, gTouchSize = 1 / 8\<rparr>"

text \<open>
  A reading with one touch (location 896, size 3250, horizontal location 448) and the
  values that a cycle publishes for it.
\<close>

definition one_touch :: reading where
  "one_touch =
     \<lparr>touches = [\<lparr>touchLocation = 896, touchSize = 3250\<rparr>], horizontalTouches = [448]\<rparr>"

definition published_touch :: control where
  "published_touch = \<lparr>gTouchPosition0 = 1 / 4, gTouchPosition1 = 1 / 2, gTouchSize = 1 / 2\<rparr>"

text \<open>Pipeline globals as \<^verbatim>\<open>setup\<close> leaves them at 44.1 kHz, with a counter for an oscillator.\<close>

definition globals_example :: "nat globals" where
  "globals_example =
     \<lparr>gTouch = \<lparr>gTouchPosition0 = 1 / 2, gTouchPosition1 = 1 / 2, gTouchSize = 1\<rparr>, osc = 0,
      freqFilt = OnePole_setup 1 44100, panFilt = OnePole_setup 1 44100,
      ampFilt = OnePole_setup 1 44100, gAmpL = 1, gAmpR = 1\<rparr>"

text \<open>A two-channel 16-bit file and a mono float file that is one item short.\<close>

definition stereo_file :: sndfile where
  "stereo_file =
     \<lparr>frames = 2, channels = 2, format = 0x10002, items = [1, 2, 3, 4], signal_max = 4\<rparr>"

definition mono_file :: sndfile where
  "mono_file =
     \<lparr>frames = 3, channels = 1, format = 0x10006, items = [1 / 2, - 1], signal_max = 1\<rparr>"

section \<open>Properties\<close>

subsection \<open>Touch aggregation and the poll loop\<close>

lemma sum_touches_active:
  "sum_touches ts (l, s, n) =
     (l + sum_list (map touchLocation (filter (\<lambda>t. touchLocation t \<noteq> 0) ts)),
      s + sum_list (map touchSize (filter (\<lambda>t. touchLocation t \<noteq> 0) ts)),
      n + int (length (filter (\<lambda>t. touchLocation t \<noteq> 0) ts)))"
  by (induction ts arbitrary: l s n) simp_all

lemma constrain_unit: "0 \<le> constrain x 0 1 \<and> constrain x 0 1 \<le> 1"
  by (simp add: constrain_def)

lemma poll_cycle_in_unit: "in_unit (poll_cycle nan_int r g)"
  by (simp add: poll_cycle_def in_unit_def Let_def constrain_unit split: prod.splits)

lemma loop_in_unit: "in_unit g \<Longrightarrow> in_unit (loop nan_int rs g)"
  by (induction rs arbitrary: g) (simp_all add: poll_cycle_in_unit)

lemma control_init_in_unit: "in_unit control_init"
  by (simp add: in_unit_def control_init_def)

lemma size_never_an_eighth:
  "constrain (map_range (real_of_int k) 500 6000 0 1) 0 1 \<noteq> 1 / 8"
proof
  assume "constrain (map_range (real_of_int k) 500 6000 0 1) 0 1 = 1 / 8"
  then have "(real_of_int k - 500) / 5500 = 1 / 8"
    by (simp add: constrain_def map_range_def split: if_splits)
  then have "real_of_int (2 * k) = real_of_int 2375"
    by (simp add: field_simps)
  then have "2 * k = 2375"
    by (simp only: of_int_eq_iff)
  then show False
    by presburger
qed

lemma one_touch_published: "loop nan_int [one_touch] control_init = published_touch"
  by (simp add: poll_cycle_def aggregate_vertical_def aggregate_horizontal_def floor_avg_def
      Let_def gTouchSizeRange_def one_touch_def published_touch_def control_init_def
      map_range_def constrain_def)

lemma no_touch_after_touch:
  "poll_cycle nan_int no_touch published_touch \<noteq> published_touch"
  by (simp add: poll_cycle_def aggregate_vertical_def aggregate_horizontal_def floor_avg_def
      Let_def gTouchSizeRange_def no_touch_def published_touch_def)

lemma no_touch_after_touch_zero:
  "loop 0 [one_touch, no_touch] control_init =
     \<lparr>gTouchPosition0 = 0, gTouchPosition1 = 0, gTouchSize = 0\<rparr>"
  by (simp add: poll_cycle_def aggregate_vertical_def aggregate_horizontal_def floor_avg_def
      Let_def gTouchSizeRange_def one_touch_def no_touch_def control_init_def map_range_def
      constrain_def)

text \<open>
  C1. A poll cycle without any active touch is claimed to leave the three published values
  as they were. The loop has no branch for a zero count: it divides by it, converts the
  NaN to \<^verbatim>\<open>int\<close> and maps and publishes whatever integer that gives. From the initial
  globals, a cycle with one touch publishes (1/4, 1/2, 1/2); a following cycle without a
  touch gives these values back for no outcome of the conversion, and with the outcome 0
  (the one of the ARM conversion instruction) it publishes (0, 0, 0). The same holds
  starting from the values (1/2, 1/2, 1/8).
\<close>

theorem poll_cycle_no_touch_overwrites:
  "loop nan_int [one_touch] control_init = published_touch \<and>
   poll_cycle nan_int no_touch published_touch \<noteq> published_touch \<and>
   loop 0 [one_touch, no_touch] control_init =
     \<lparr>gTouchPosition0 = 0, gTouchPosition1 = 0, gTouchSize = 0\<rparr> \<and>
   poll_cycle nan_int no_touch published_before \<noteq> published_before \<and>
   poll_cycle 0 no_touch published_before =
     \<lparr>gTouchPosition0 = 0, gTouchPosition1 = 0, gTouchSize = 0\<rparr>"
proof -
  have "poll_cycle nan_int no_touch published_before \<noteq> published_before"
    using size_never_an_eighth [of nan_int]
    by (simp add: poll_cycle_def aggregate_vertical_def aggregate_horizontal_def floor_avg_def
        Let_def gTouchSizeRange_def no_touch_def published_before_def)
  moreover have "poll_cycle 0 no_touch published_before =
      \<lparr>gTouchPosition0 = 0, gTouchPosition1 = 0, gTouchSize = 0\<rparr>"
    by (simp add: poll_cycle_def aggregate_vertical_def aggregate_horizontal_def floor_avg_def
        Let_def gTouchSizeRange_def no_touch_def published_before_def map_range_def
        constrain_def)
  ultimately show ?thesis
    using one_touch_published [of nan_int] no_touch_after_touch [of nan_int]
      no_touch_after_touch_zero
    by blast
qed

text \<open>
  C2, as stated: with the two active slots at locations 1 and 2 the raw aggregated location
  would be 3/2. The code assigns the floor of the quotient to an \<^verbatim>\<open>int\<close>, which is 1.
\<close>

theorem aggregate_two_touches_not_mean:
  "real_of_int (fst (aggregate_vertical 0
      [\<lparr>touchLocation = 1, touchSize = 10\<rparr>, \<lparr>touchLocation = 2, touchSize = 10\<rparr>]))
     \<noteq> (1 + 2) / 2"
  by (simp add: aggregate_vertical_def floor_avg_def)

text \<open>
  C2, amended. When the slots of a reading hold 16-bit values and exactly two of them are
  active, at locations L1 and L2 (the other slots having location 0), the raw aggregated
  location is the arithmetic mean rounded down to an integer, \<open>\<lfloor>(L1 + L2) / 2\<rfloor>\<close>.
\<close>

theorem aggregate_two_touches_floor_mean:
  assumes "list_all in_sensor_range ts"
    and "filter (\<lambda>t. touchLocation t \<noteq> 0) ts = [t1, t2]"
  shows "fst (aggregate_vertical nan_int ts)
           = \<lfloor>(real_of_int (touchLocation t1) + real_of_int (touchLocation t2)) / 2\<rfloor>"
  using assms(2) by (simp add: aggregate_vertical_def sum_touches_active floor_avg_def)

theorem aggregate_two_touches_floor_mean_witness:
  "list_all in_sensor_range
     [\<lparr>touchLocation = 896, touchSize = 3000\<rparr>, \<lparr>touchLocation = 0, touchSize = 0\<rparr>,
      \<lparr>touchLocation = 901, touchSize = 3500\<rparr>] \<and>
   filter (\<lambda>t. touchLocation t \<noteq> 0)
     [\<lparr>touchLocation = 896, touchSize = 3000\<rparr>, \<lparr>touchLocation = 0, touchSize = 0\<rparr>,
      \<lparr>touchLocation = 901, touchSize = 3500\<rparr>]
     = [\<lparr>touchLocation = 896, touchSize = 3000\<rparr>, \<lparr>touchLocation = 901, touchSize = 3500\<rparr>] \<and>
   fst (aggregate_vertical 0
     [\<lparr>touchLocation = 896, touchSize = 3000\<rparr>, \<lparr>touchLocation = 0, touchSize = 0\<rparr>,
      \<lparr>touchLocation = 901, touchSize = 3500\<rparr>]) = 898"
  using aggregate_two_touches_floor_mean
    [of "[\<lparr>touchLocation = 896, touchSize = 3000\<rparr>, \<lparr>touchLocation = 0, touchSize = 0\<rparr>,
          \<lparr>touchLocation = 901, touchSize = 3500\<rparr>]"
        "\<lparr>touchLocation = 896, touchSize = 3000\<rparr>" "\<lparr>touchLocation = 901, touchSize = 3500\<rparr>" 0]
  by (simp add: in_sensor_range_def)

text \<open>
  C3. After every poll cycle the three published values lie in [0, 1]: after one cycle from
  any values, after every non-empty sequence of readings from any values, and after every
  sequence of readings from the initial values; the reading and the outcome of the
  undefined conversion are arbitrary.
\<close>

theorem published_values_in_unit_interval:
  "in_unit (poll_cycle nan_int r g) \<and>
   in_unit (loop nan_int (r # rs) g) \<and>
   in_unit (loop nan_int rs control_init)"
  by (simp add: poll_cycle_in_unit loop_in_unit control_init_in_unit)

subsection \<open>Range mapper and parameter smoother\<close>

text \<open>
  C4. With \<^verbatim>\<open>inMin == inMax\<close> the range mapper returns the fallback \<^verbatim>\<open>outMin\<close>, a finite
  number, for every value and every output range.
\<close>

theorem map_range_degenerate_fallback:
  "map_range x m m out_min out_max = out_min"
  by (simp add: map_range_def)

text \<open>
  C5. The current state of a smoother is a fixed point of \<^verbatim>\<open>process\<close>: called with the
  state as input it returns the state and leaves the filter as it was, whatever the
  coefficient.
\<close>

theorem OnePole_process_fixed_point:
  "OnePole_process (state_y f) f = (state_y f, f)"
  by (simp add: OnePole_process_def)

lemma OnePole_hold_coeff: "coeff_a (OnePole_hold x n f) = coeff_a f"
  by (induction n arbitrary: f) (simp_all add: OnePole_process_def Let_def)

lemma OnePole_hold_closed_form:
  "state_y (OnePole_hold x n f) = x + (1 - coeff_a f) ^ n * (state_y f - x)"
proof (induction n arbitrary: f)
  case 0
  show ?case by simp
next
  case (Suc n)
  show ?case by (simp add: Suc OnePole_process_def Let_def algebra_simps)
qed

lemma held_output_closed_form:
  "held_output x f n = x + (1 - coeff_a f) ^ Suc n * (state_y f - x)"
  by (simp add: held_output_def OnePole_process_def Let_def OnePole_hold_closed_form
      OnePole_hold_coeff algebra_simps)

lemma OnePole_setup_coeff:
  assumes "0 < cutoffHz" "cutoffHz < sampleRateHz / 2"
  shows "0 < coeff_a (OnePole_setup cutoffHz sampleRateHz) \<and>
         coeff_a (OnePole_setup cutoffHz sampleRateHz) < 1"
proof -
  have "0 < sampleRateHz" using assms by simp
  then have "0 < 2 * pi * cutoffHz / sampleRateHz" using assms by simp
  then show ?thesis by (simp add: OnePole_setup_def)
qed

lemma convex_between:
  fixes t :: real
  assumes "0 \<le> t" "t \<le> 1"
  shows "min y0 x \<le> x + t * (y0 - x) \<and> x + t * (y0 - x) \<le> max y0 x"
proof -
  define e where "e = t * (y0 - x)"
  show ?thesis
  proof (cases "x \<le> y0")
    case True
    then have d: "0 \<le> y0 - x" by simp
    have "0 \<le> t * (y0 - x)" using assms(1) d by (rule mult_nonneg_nonneg)
    moreover have "t * (y0 - x) \<le> 1 * (y0 - x)" using assms(2) d by (rule mult_right_mono)
    ultimately have "0 \<le> e" "e \<le> y0 - x" by (simp_all only: e_def mult_1)
    then have "min y0 x \<le> x + e \<and> x + e \<le> max y0 x" using True by linarith
    then show ?thesis by (simp only: e_def)
  next
    case False
    then have d: "y0 - x \<le> 0" by simp
    have "t * (y0 - x) \<le> 0" using assms(1) d by (rule mult_nonneg_nonpos)
    moreover have "1 * (y0 - x) \<le> t * (y0 - x)" using assms(2) d by (rule mult_right_mono_neg)
    ultimately have "e \<le> 0" "y0 - x \<le> e" by (simp_all only: e_def mult_1)
    then have "min y0 x \<le> x + e \<and> x + e \<le> max y0 x" using False by linarith
    then show ?thesis by (simp only: e_def)
  qed
qed

lemma geometric_monotone:
  fixes q d :: real
  assumes "0 \<le> q" "q \<le> 1"
  shows "mono (\<lambda>n. x + q ^ Suc n * d) \<or> antimono (\<lambda>n. x + q ^ Suc n * d)"
proof (cases "0 \<le> d")
  case True
  have "antimono (\<lambda>n. x + q ^ Suc n * d)"
  proof (rule antimonoI)
    fix m n :: nat
    assume "m \<le> n"
    then have "Suc m \<le> Suc n" by simp
    then have "q ^ Suc n \<le> q ^ Suc m" using assms by (rule power_decreasing)
    then have "q ^ Suc n * d \<le> q ^ Suc m * d" using True by (rule mult_right_mono)
    then show "x + q ^ Suc n * d \<le> x + q ^ Suc m * d" by simp
  qed
  then show ?thesis ..
next
  case False
  then have d: "d \<le> 0" by simp
  have "mono (\<lambda>n. x + q ^ Suc n * d)"
  proof (rule monoI)
    fix m n :: nat
    assume "m \<le> n"
    then have "Suc m \<le> Suc n" by simp
    then have "q ^ Suc n \<le> q ^ Suc m" using assms by (rule power_decreasing)
    then have "q ^ Suc m * d \<le> q ^ Suc n * d" using d by (rule mult_right_mono_neg)
    then show "x + q ^ Suc m * d \<le> x + q ^ Suc n * d" by simp
  qed
  then show ?thesis ..
qed

lemma geometric_limit:
  fixes q d :: real
  assumes "0 \<le> q" "q < 1"
  shows "(\<lambda>n. x + q ^ Suc n * d) \<longlonglongrightarrow> x"
proof -
  have "(\<lambda>n. q ^ n) \<longlonglongrightarrow> 0" using assms by (rule LIMSEQ_realpow_zero)
  then have "(\<lambda>n. q ^ Suc n) \<longlonglongrightarrow> 0" by (rule LIMSEQ_Suc)
  then have "(\<lambda>n. x + q ^ Suc n * d) \<longlonglongrightarrow> x + 0 * d"
    by (intro tendsto_intros)
  then show ?thesis by simp
qed

text \<open>
  C6. Let the coefficient come from \<^verbatim>\<open>setup\<close> with a positive cutoff below the Nyquist rate,
  let the filter hold any state \<open>y0\<close>, and let the input \<open>x\<close> be held. Then the outputs of
  the successive calls form a monotonic sequence, every output lies between \<open>y0\<close> and \<open>x\<close>
  (so none is on the far side of \<open>x\<close>), and the sequence converges to \<open>x\<close>.
\<close>

theorem OnePole_step_response:
  assumes "0 < cutoffHz" "cutoffHz < sampleRateHz / 2"
  shows "(mono (held_output x ((OnePole_setup cutoffHz sampleRateHz)\<lparr>state_y := y0\<rparr>)) \<or>
          antimono (held_output x ((OnePole_setup cutoffHz sampleRateHz)\<lparr>state_y := y0\<rparr>))) \<and>
         (\<forall>n. min y0 x \<le> held_output x ((OnePole_setup cutoffHz sampleRateHz)\<lparr>state_y := y0\<rparr>) n \<and>
              held_output x ((OnePole_setup cutoffHz sampleRateHz)\<lparr>state_y := y0\<rparr>) n \<le> max y0 x) \<and>
         held_output x ((OnePole_setup cutoffHz sampleRateHz)\<lparr>state_y := y0\<rparr>) \<longlonglongrightarrow> x"
proof -
  define f where "f = (OnePole_setup cutoffHz sampleRateHz)\<lparr>state_y := y0\<rparr>"
  define q where "q = 1 - coeff_a f"
  have a: "0 < coeff_a f" "coeff_a f < 1"
    using OnePole_setup_coeff [OF assms] by (simp_all add: f_def)
  then have q: "0 \<le> q" "q < 1" "q \<le> 1"
    by (simp_all add: q_def)
  have out: "held_output x f = (\<lambda>n. x + q ^ Suc n * (y0 - x))"
    by (rule ext) (simp add: held_output_closed_form q_def f_def)
  have monotone: "mono (held_output x f) \<or> antimono (held_output x f)"
    unfolding out using q(1) q(3) by (rule geometric_monotone)
  have between: "min y0 x \<le> held_output x f n \<and> held_output x f n \<le> max y0 x" for n
  proof -
    have "0 \<le> q ^ Suc n" "q ^ Suc n \<le> 1"
      using q by (simp_all add: power_le_one mult_le_one)
    then show ?thesis unfolding out by (rule convex_between)
  qed
  have limit: "held_output x f \<longlonglongrightarrow> x"
    unfolding out using q(1) q(2) by (rule geometric_limit)
  show ?thesis using monotone between limit unfolding f_def by blast
qed

theorem OnePole_step_response_witness:
  "(0::real) < 1 \<and> (1::real) < 44100 / 2 \<and>
   (mono (held_output 1 (OnePole_setup 1 44100)) \<or>
    antimono (held_output 1 (OnePole_setup 1 44100))) \<and>
   (\<forall>n. 0 \<le> held_output 1 (OnePole_setup 1 44100) n \<and>
        held_output 1 (OnePole_setup 1 44100) n \<le> 1) \<and>
   held_output 1 (OnePole_setup 1 44100) \<longlonglongrightarrow> 1"
  using OnePole_step_response [of 1 44100 1 0] by (simp add: OnePole_setup_def)

subsection \<open>Control-to-audio pipeline\<close>

lemma render_frame_amps:
  "gAmpL (fst (render_frame setFrequency process audioOutChannels (g, buf) n)) =
     1 - fst (OnePole_process (gTouchPosition0 (gTouch g)) (panFilt g)) \<and>
   gAmpR (fst (render_frame setFrequency process audioOutChannels (g, buf) n)) =
     fst (OnePole_process (gTouchPosition0 (gTouch g)) (panFilt g))"
  by (simp add: render_frame_def Let_def split: prod.splits)

lemma at_pan_smoothed:
  "fst (OnePole_process (gTouchPosition0 (gTouch (at_pan p g))) (panFilt (at_pan p g))) = p"
  by (simp add: at_pan_def OnePole_process_def)

text \<open>
  C7. In every frame the pipeline sets the left gain to 1 minus the smoothed pan and the
  right gain to the smoothed pan. Where the smoothed pan is 0 the gains are (1, 0), where
  it is 1 they are (0, 1), and where it is 1/2 they are (1/2, 1/2).
\<close>

theorem render_frame_linear_pan:
  "gAmpL (fst (render_frame setFrequency process audioOutChannels (g, buf) n)) =
     1 - fst (OnePole_process (gTouchPosition0 (gTouch g)) (panFilt g)) \<and>
   gAmpR (fst (render_frame setFrequency process audioOutChannels (g, buf) n)) =
     fst (OnePole_process (gTouchPosition0 (gTouch g)) (panFilt g)) \<and>
   gAmpL (fst (render_frame setFrequency process audioOutChannels (at_pan 0 g, buf) n)) = 1 \<and>
   gAmpR (fst (render_frame setFrequency process audioOutChannels (at_pan 0 g, buf) n)) = 0 \<and>
   gAmpL (fst (render_frame setFrequency process audioOutChannels (at_pan 1 g, buf) n)) = 0 \<and>
   gAmpR (fst (render_frame setFrequency process audioOutChannels (at_pan 1 g, buf) n)) = 1 \<and>
   gAmpL (fst (render_frame setFrequency process audioOutChannels (at_pan (1 / 2) g, buf) n))
     = 1 / 2 \<and>
   gAmpR (fst (render_frame setFrequency process audioOutChannels (at_pan (1 / 2) g, buf) n))
     = 1 / 2"
  by (simp add: render_frame_amps at_pan_smoothed)

lemma write_channels_beyond:
  "1 < c \<Longrightarrow> foldl (write_channel ampL ampR out n) buf chs frame c = buf frame c"
  by (induction chs arbitrary: buf) (simp_all add: write_channel_def audioWrite_def)

lemma render_frame_beyond:
  "1 < c \<Longrightarrow>
     snd (render_frame setFrequency process audioOutChannels (g, buf) n) frame c = buf frame c"
  by (simp add: render_frame_def Let_def write_channels_beyond split: prod.splits)

lemma render_frames_beyond:
  "1 < c \<Longrightarrow>
     snd (foldl (render_frame setFrequency process audioOutChannels) st ns) frame c
       = snd st frame c"
proof (induction ns arbitrary: st)
  case Nil
  show ?case by simp
next
  case (Cons n ns)
  obtain g buf where st: "st = (g, buf)" by (cases st)
  show ?case using Cons.prems by (simp add: Cons.IH st render_frame_beyond)
qed

text \<open>
  C8. A block rendered by the pipeline leaves every entry of the output buffer whose
  channel index is greater than 1 as it was, in every frame: only channels 0 and 1 are
  written.
\<close>

theorem render_leaves_channels_beyond_1:
  assumes "1 < channel"
  shows "snd (render setFrequency process audioFrames audioOutChannels (g, buf)) frame channel
           = buf frame channel"
  using assms by (simp add: render_def render_frames_beyond)

theorem render_leaves_channels_beyond_1_witness:
  "(1::nat) < 2 \<and>
   snd (render (\<lambda>f s. s) (\<lambda>s. (1, Suc s)) 2 4 (globals_example, \<lambda>frame channel. 7)) 0 2 = 7"
  using render_leaves_channels_beyond_1
    [of 2 "\<lambda>f s. s" "\<lambda>s. (1, Suc s)" 2 4 globals_example "\<lambda>frame channel. 7" 0]
  by simp

subsection \<open>Sample loader\<close>

text \<open>
  C9. A file that opens and whose channel count is not 1 makes the loader return 1, after
  the line that the file is not mono; the structure behind \<^verbatim>\<open>smp\<close> (its buffer pointer
  included) and the heap are as before, and the allocator is not consulted.
\<close>

theorem initFile_rejects_non_mono:
  assumes "sf_open file = Some f" "channels f \<noteq> 1"
  shows "initFile sf_open new_float file smp h = Inr (1, smp, h, [NotMonoFile file])"
  using assms by (simp add: initFile_def)

theorem initFile_rejects_non_mono_witness:
  "(\<lambda>name. Some stereo_file) ''sample.wav'' = Some stereo_file \<and> channels stereo_file \<noteq> 1 \<and>
   initFile (\<lambda>name. Some stereo_file) (\<lambda>n. Some 64) ''sample.wav'' (Some sampleData_init)
       Map.empty
     = Inr (1, Some sampleData_init, Map.empty, [NotMonoFile ''sample.wav''])"
  using initFile_rejects_non_mono
    [of "\<lambda>name. Some stereo_file" "''sample.wav''" stereo_file "\<lambda>n. Some 64"
        "Some sampleData_init" Map.empty]
  by (simp add: stereo_file_def)

text \<open>
  C10. With a non-null \<^verbatim>\<open>smp\<close> no call of the loader prints that the buffer could not be
  allocated: the test after the allocation looks at \<^verbatim>\<open>smp\<close>, which is not null. When the
  allocation of the buffer of a mono file fails, the call ends in the allocation fault
  instead of returning.
\<close>

theorem initFile_allocation_check_unreachable:
  assumes "smp \<noteq> None"
  shows "CouldNotAllocateBuffer \<notin> set (printed (initFile sf_open new_float file smp h)) \<and>
         (\<forall>f. sf_open file = Some f \<and> channels f = 1 \<and>
               new_float (nat (int32_of (frames f))) = None
            \<longrightarrow> initFile sf_open new_float file smp h = Inl BadAlloc)"
  using assms
  by (auto simp: initFile_def printed_def read_samples_def Let_def
      split: option.splits prod.splits if_splits)

theorem initFile_allocation_check_unreachable_witness:
  "Some sampleData_init \<noteq> None \<and>
   CouldNotAllocateBuffer \<notin> set (printed (initFile (\<lambda>name. Some mono_file) (\<lambda>n. None)
       ''sample.wav'' (Some sampleData_init) Map.empty)) \<and>
   (\<lambda>name. Some mono_file) ''sample.wav'' = Some mono_file \<and> channels mono_file = 1 \<and>
   (\<lambda>n. None :: nat option) (nat (int32_of (frames mono_file))) = None \<and>
   initFile (\<lambda>name. Some mono_file) (\<lambda>n. None) ''sample.wav'' (Some sampleData_init) Map.empty
     = Inl BadAlloc"
  using initFile_allocation_check_unreachable
    [of "Some sampleData_init" "\<lambda>name. Some mono_file" "\<lambda>n. None" "''sample.wav''" Map.empty]
  by (simp add: mono_file_def printed_def)

end
